theory Spec2Isabelle
  imports Complex_Main "HOL-Library.Char_ord"
begin

section \<open>Embedding of co2.js\<close>

text \<open>
  The program estimates the carbon emissions of the processes of an Atlas project.
  Its decision logic lives in four places of \<^verbatim>\<open>src/co2.js\<close>: the averaging helpers
  (lines 36 to 62), the callback that turns a cluster into process descriptors
  (lines 100 to 148), the callback that joins a process with its measurements and its
  hardware profile (lines 152 to 177) and the energy formula with its total
  (lines 186 to 191). Network access, the interactive prompt and console output are
  not modelled: the clusters of the chosen group and the answer of the measurement
  endpoint are inputs of the model.
\<close>

subsection \<open>Numbers\<close>

text \<open>
  A JavaScript Number is an IEEE 754 double. The program only adds, multiplies and
  divides numbers, writes decimal literals and calls \<^verbatim>\<open>parseFloat\<close>. These operations
  are a parameter of the embedding: every function below takes a record \<open>A\<close> of them
  and uses them in the order in which the source evaluates its expressions, so a
  theorem stated for every \<open>A\<close> holds for double arithmetic in particular.
  \<open>num A r\<close> is the Number denoted by the decimal literal or by the integer \<open>r\<close>.
\<close>

record 'n arith =
  add :: "'n \<Rightarrow> 'n \<Rightarrow> 'n"
  mul :: "'n \<Rightarrow> 'n \<Rightarrow> 'n"
  divide :: "'n \<Rightarrow> 'n \<Rightarrow> 'n"
  num :: "real \<Rightarrow> 'n"
  parseFloat :: "string \<Rightarrow> 'n"

text \<open>
  One instance is written out: the special values of IEEE 754 with exact (unrounded)
  arithmetic on the finite values and a single zero. It is the arithmetic in which the
  algebraic statements about the energy formula are made, and the one the concrete
  examples are evaluated in.
\<close>

datatype number = Finite real | PosInfinity | NegInfinity | NaN

fun negate :: "number \<Rightarrow> number" where
  "negate (Finite a) = Finite (- a)"
| "negate PosInfinity = NegInfinity"
| "negate NegInfinity = PosInfinity"
| "negate NaN = NaN"

fun addNumber :: "number \<Rightarrow> number \<Rightarrow> number" where
  "addNumber NaN y = NaN"
| "addNumber x NaN = NaN"
| "addNumber (Finite a) (Finite b) = Finite (a + b)"
| "addNumber PosInfinity NegInfinity = NaN"
| "addNumber NegInfinity PosInfinity = NaN"
| "addNumber (Finite a) y = y"
| "addNumber x y = x"

text \<open>The sign of a number other than NaN and zero: \<open>True\<close> for a negative one.\<close>

fun negative :: "number \<Rightarrow> bool" where
  "negative (Finite a) = (a < 0)"
| "negative NegInfinity = True"
| "negative x = False"

fun mulNumber :: "number \<Rightarrow> number \<Rightarrow> number" where
  "mulNumber NaN y = NaN"
| "mulNumber x NaN = NaN"
| "mulNumber (Finite a) (Finite b) = Finite (a * b)"
| "mulNumber x y =
     (if x = Finite 0 \<or> y = Finite 0 then NaN
      else if negative x = negative y then PosInfinity else NegInfinity)"

fun divNumber :: "number \<Rightarrow> number \<Rightarrow> number" where
  "divNumber NaN y = NaN"
| "divNumber x NaN = NaN"
| "divNumber (Finite a) (Finite b) =
     (if b \<noteq> 0 then Finite (a / b)
      else if a = 0 then NaN
      else if a < 0 then NegInfinity else PosInfinity)"
| "divNumber (Finite a) y = Finite 0"
| "divNumber x (Finite b) = (if negative x = (b < 0) then PosInfinity else NegInfinity)"
| "divNumber x y = NaN"

text \<open>
  \<^verbatim>\<open>parseFloat\<close> skips leading white space and reads the longest prefix that is a
  decimal literal: an optional sign, then \<^verbatim>\<open>Infinity\<close> or digits with an optional
  fraction and an optional exponent. A string with no such prefix gives NaN.
\<close>

definition isDigit :: "char \<Rightarrow> bool" where
  "isDigit c = (CHR ''0'' \<le> c \<and> c \<le> CHR ''9'')"

definition digitsValue :: "string \<Rightarrow> nat" where
  "digitsValue ds = foldl (\<lambda>n c. 10 * n + (of_char c - 48)) 0 ds"

definition isWhiteSpace :: "char \<Rightarrow> bool" where
  "isWhiteSpace c = (c \<in> {CHR '' '', CHR 0x09, CHR 0x0A, CHR 0x0B, CHR 0x0C, CHR 0x0D})"

definition exponentPart :: "string \<Rightarrow> int" where
  "exponentPart s =
     (case s of
        [] \<Rightarrow> 0
      | e # t \<Rightarrow>
          if e = CHR ''e'' \<or> e = CHR ''E'' then
            (case t of
               [] \<Rightarrow> 0
             | sg # u \<Rightarrow>
                 if sg = CHR ''-'' then
                   (if takeWhile isDigit u = [] then 0
                    else - int (digitsValue (takeWhile isDigit u)))
                 else if sg = CHR ''+'' then int (digitsValue (takeWhile isDigit u))
                 else int (digitsValue (takeWhile isDigit t)))
          else 0)"

definition scale10 :: "real \<Rightarrow> int \<Rightarrow> real" where
  "scale10 x e = (if 0 \<le> e then x * 10 ^ nat e else x / 10 ^ nat (- e))"

definition parseUnsigned :: "string \<Rightarrow> number" where
  "parseUnsigned s =
     (if take 8 s = ''Infinity'' then PosInfinity
      else
        let ip = takeWhile isDigit s;
            r1 = dropWhile isDigit s;
            fp = (case r1 of [] \<Rightarrow> [] | d # t \<Rightarrow> if d = CHR ''.'' then takeWhile isDigit t else []);
            r2 = (case r1 of [] \<Rightarrow> [] | d # t \<Rightarrow> if d = CHR ''.'' then dropWhile isDigit t else r1)
        in if ip = [] \<and> fp = [] then NaN
           else Finite (scale10 (real (digitsValue ip) + real (digitsValue fp) / 10 ^ length fp)
                          (exponentPart r2)))"

definition parseFloatNumber :: "string \<Rightarrow> number" where
  "parseFloatNumber s =
     (case dropWhile isWhiteSpace s of
        [] \<Rightarrow> NaN
      | c # t \<Rightarrow>
          if c = CHR ''-'' then negate (parseUnsigned t)
          else if c = CHR ''+'' then parseUnsigned t
          else parseUnsigned (c # t))"

definition exact :: "number arith" where
  "exact = \<lparr>add = addNumber, mul = mulNumber, divide = divNumber, num = Finite,
            parseFloat = parseFloatNumber\<rparr>"

subsection \<open>Strings\<close>

text \<open>
  Provider names, region names and the cells of the reference tables are strings of
  ASCII characters; \<open>toUpperCase\<close> maps the letters a to z to A to Z and leaves every
  other character as it is, which is what \<^verbatim>\<open>String.prototype.toUpperCase\<close> does on
  ASCII text.
\<close>

definition toUpperCaseChar :: "char \<Rightarrow> char" where
  "toUpperCaseChar c =
     (case map_of (zip ''abcdefghijklmnopqrstuvwxyz'' ''ABCDEFGHIJKLMNOPQRSTUVWXYZ'') c of
        Some u \<Rightarrow> u
      | None \<Rightarrow> c)"

definition toUpperCase :: "string \<Rightarrow> string" where
  "toUpperCase s = map toUpperCaseChar s"

text \<open>\<^verbatim>\<open>s.replace(/(_|-| )/g, "")\<close>: every underscore, hyphen and space is removed.\<close>

definition stripSeparators :: "string \<Rightarrow> string" where
  "stripSeparators s = filter (\<lambda>c. c \<noteq> CHR ''_'' \<and> c \<noteq> CHR ''-'' \<and> c \<noteq> CHR '' '') s"

text \<open>\<^verbatim>\<open>s.split(d)\<close> for a separator of one character; the empty string gives one empty piece.\<close>

fun split :: "char \<Rightarrow> string \<Rightarrow> string list" where
  "split d [] = [[]]"
| "split d (x # xs) =
     (if x = d then [] # split d xs
      else (case split d xs of [] \<Rightarrow> [[x]] | w # ws \<Rightarrow> (x # w) # ws))"

text \<open>\<^verbatim>\<open>s.replace(pat, rep)\<close> for a string pattern: the first occurrence only.\<close>

fun replace :: "string \<Rightarrow> string \<Rightarrow> string \<Rightarrow> string" where
  "replace pat rep [] = (if pat = [] then rep else [])"
| "replace pat rep (x # xs) =
     (if take (length pat) (x # xs) = pat then rep @ drop (length pat) (x # xs)
      else x # replace pat rep xs)"

subsection \<open>Errors and reference tables\<close>

text \<open>
  Every failure of the modelled code is a \<^verbatim>\<open>TypeError\<close>: a property read on
  \<^verbatim>\<open>undefined\<close>, or \<^verbatim>\<open>reduce\<close> on an empty array with no initial value.
\<close>

datatype error = TypeError

text \<open>
  Lines 8 and 9: a table is the text of a file cut at line feeds, each line cut at
  commas. \<open>field c i\<close> is \<^verbatim>\<open>c[i]\<close>, with \<open>None\<close> for \<^verbatim>\<open>undefined\<close>.
\<close>

type_synonym row = "string list"

definition loadTable :: "string \<Rightarrow> row list" where
  "loadTable contents = map (split CHR '','') (split CHR 0x0A contents)"

definition field :: "row \<Rightarrow> nat \<Rightarrow> string option" where
  "field c i = (if i < length c then Some (c ! i) else None)"

text \<open>\<^verbatim>\<open>parseFloat\<close> of a cell; an absent cell is converted to the string \<^verbatim>\<open>undefined\<close>.\<close>

definition parseFloatField :: "'n arith \<Rightarrow> string option \<Rightarrow> 'n" where
  "parseFloatField A v = parseFloat A (case v of None \<Rightarrow> ''undefined'' | Some s \<Rightarrow> s)"

text \<open>\<^verbatim>\<open>Array.prototype.find\<close> with a predicate that may throw.\<close>

fun findRow :: "(row \<Rightarrow> error + bool) \<Rightarrow> row list \<Rightarrow> error + row option" where
  "findRow P [] = Inr None"
| "findRow P (c # cs) =
     (case P c of
        Inl e \<Rightarrow> Inl e
      | Inr b \<Rightarrow> if b then Inr (Some c) else findRow P cs)"

subsection \<open>Clusters and process descriptors\<close>

record providerSettings =
  instanceSizeName :: string
  providerName :: string
  regionName :: string

record 'n cluster =
  name :: string
  providerSettings :: providerSettings
  diskSizeGB :: 'n
  mongoURI :: string

record 'n process =
  id_process :: string
  cluster :: string
  providerSettings :: providerSettings
  diskSizeGb :: 'n
  PUE :: 'n
  gCO2ekWh :: 'n

text \<open>Lines 110 to 113: the default PUE of a provider, from its upper-cased name.\<close>

definition defaultPUE :: "'n arith \<Rightarrow> string \<Rightarrow> 'n" where
  "defaultPUE A providerName' =
     (let PUE' = num A 1.67;
          PUE' = (if providerName' = ''GCP'' then num A 1.11 else PUE');
          PUE' = (if providerName' = ''AZURE'' then num A 1.125 else PUE');
          PUE' = (if providerName' = ''AWS'' then num A 1.2 else PUE')
      in PUE')"

text \<open>
  Line 118, the predicate of the datacenter lookup. \<open>providerName'\<close> and \<open>regionName'\<close>
  are already upper-cased (lines 107 and 108). The region cell is read only when the
  provider cell matches; reading it on a row that has none throws.
\<close>

definition rowMatches :: "string \<Rightarrow> string \<Rightarrow> row \<Rightarrow> error + bool" where
  "rowMatches providerName' regionName' c =
     (case field c 0 of
        None \<Rightarrow> Inl TypeError
      | Some c0 \<Rightarrow>
          if toUpperCase c0 = providerName' then
            (case field c 1 of
               None \<Rightarrow> Inl TypeError
             | Some c1 \<Rightarrow>
                 Inr (stripSeparators (toUpperCase c1) = stripSeparators regionName'))
          else Inr False)"

text \<open>Lines 107, 108 and 117 to 119: the datacenter row of a provider and a region.\<close>

definition findCloudProvider :: "row list \<Rightarrow> string \<Rightarrow> string \<Rightarrow> error + row option" where
  "findCloudProvider cloudProviders provider region =
     findRow (rowMatches (toUpperCase provider) (toUpperCase region)) cloudProviders"

text \<open>
  Lines 121 to 126, for the row found: the PUE override in column 6 and the carbon
  intensity in column 4 of the first row of the intensity table whose column 0 is the
  row's column 2.
\<close>

definition applyCloudProvider :: "'n arith \<Rightarrow> row list \<Rightarrow> 'n \<Rightarrow> row option \<Rightarrow> 'n \<times> 'n" where
  "applyCloudProvider A ciAggregated PUE' cloudProvider =
     (case cloudProvider of
        None \<Rightarrow> (PUE', num A 475)
      | Some cp \<Rightarrow>
          (if field cp 6 \<noteq> Some [] then parseFloatField A (field cp 6) else PUE',
           case find (\<lambda>ci. field ci 0 = field cp 2) ciAggregated of
             Some ci \<Rightarrow> parseFloatField A (field ci 4)
           | None \<Rightarrow> num A 475))"

text \<open>Lines 107 to 129: the pair (PUE, gCO2ekWh) of a cluster's provider settings.\<close>

definition resolveFactors ::
  "'n arith \<Rightarrow> row list \<Rightarrow> row list \<Rightarrow> providerSettings \<Rightarrow> error + 'n \<times> 'n" where
  "resolveFactors A cloudProviders ciAggregated settings =
     (case findCloudProvider cloudProviders (providerSettings.providerName settings)
             (providerSettings.regionName settings) of
        Inl e \<Rightarrow> Inl e
      | Inr cloudProvider \<Rightarrow>
          Inr (applyCloudProvider A ciAggregated
                 (defaultPUE A (toUpperCase (providerSettings.providerName settings)))
                 cloudProvider))"

text \<open>
  Lines 100 to 147, the callback of \<^verbatim>\<open>clusters.map\<close>: the cluster it returns
  (\<open>None\<close> for \<^verbatim>\<open>undefined\<close>) and the array \<open>processes\<close> after its pushes.
\<close>

definition clusterCallback ::
  "'n arith \<Rightarrow> row list \<Rightarrow> row list \<Rightarrow> 'n process list \<Rightarrow> 'n cluster
     \<Rightarrow> error + 'n cluster option \<times> 'n process list" where
  "clusterCallback A cloudProviders ciAggregated processes c =
     (let instance = providerSettings.instanceSizeName (cluster.providerSettings c) in
      if instance = ''M0'' \<or> instance = ''M2'' \<or> instance = ''M5'' then Inr (None, processes)
      else
        case resolveFactors A cloudProviders ciAggregated (cluster.providerSettings c) of
          Inl e \<Rightarrow> Inl e
        | Inr (PUE', gCO2ekWh') \<Rightarrow>
            let clusterProcesses = split CHR '','' (replace ''mongodb://'' [] (mongoURI c))
            in Inr (Some c,
                    processes @
                    map (\<lambda>p. \<lparr>id_process = p, cluster = cluster.name c,
                               process.providerSettings = cluster.providerSettings c,
                               diskSizeGb = diskSizeGB c, PUE = PUE', gCO2ekWh = gCO2ekWh'\<rparr>)
                      clusterProcesses))"

text \<open>
  Lines 100 to 148: the map over the clusters followed by the filter that drops the
  \<^verbatim>\<open>undefined\<close> entries. The result is the kept clusters and the processes.
\<close>

fun mapClusters ::
  "'n arith \<Rightarrow> row list \<Rightarrow> row list \<Rightarrow> 'n process list \<Rightarrow> 'n cluster list
     \<Rightarrow> error + 'n cluster list \<times> 'n process list" where
  "mapClusters A cloudProviders ciAggregated processes [] = Inr ([], processes)"
| "mapClusters A cloudProviders ciAggregated processes (c # cs) =
     (case clusterCallback A cloudProviders ciAggregated processes c of
        Inl e \<Rightarrow> Inl e
      | Inr (kept, processes') \<Rightarrow>
          (case mapClusters A cloudProviders ciAggregated processes' cs of
             Inl e \<Rightarrow> Inl e
           | Inr (clusters, processes'') \<Rightarrow>
               Inr ((case kept of None \<Rightarrow> clusters | Some k \<Rightarrow> k # clusters), processes'')))"

subsection \<open>Measurements\<close>

record 'n dataPoint =
  timestamp :: string
  value_dp :: 'n

record 'n measurement =
  name :: string
  dataPoints :: "'n dataPoint list"

record 'n measurementSet =
  measurements :: "'n measurement list"

text \<open>Lines 13 to 27; the CPU names in the order \<^verbatim>\<open>Object.values\<close> lists them.\<close>

definition METRICS_MEMORY_available :: string where
  "METRICS_MEMORY_available = ''SYSTEM_MEMORY_AVAILABLE''"

definition METRICS_CPU :: "string list" where
  "METRICS_CPU =
     [''SYSTEM_NORMALIZED_CPU_USER'', ''SYSTEM_NORMALIZED_CPU_KERNEL'',
      ''SYSTEM_NORMALIZED_CPU_NICE'', ''SYSTEM_NORMALIZED_CPU_IOWAIT'',
      ''SYSTEM_NORMALIZED_CPU_IRQ'', ''SYSTEM_NORMALIZED_CPU_SOFTIRQ'',
      ''SYSTEM_NORMALIZED_CPU_GUEST'', ''SYSTEM_NORMALIZED_CPU_STEAL'']"

record 'n granularityParams =
  granularity :: string
  period :: string
  runningTimeHours :: 'n

definition GRANULARITY_PARAMS :: "'n arith \<Rightarrow> 'n granularityParams" where
  "GRANULARITY_PARAMS A = \<lparr>granularity = ''PT5M'', period = ''P1D'', runningTimeHours = num A 24\<rparr>"

text \<open>Lines 36 to 38: the series of the first measurement with the given name.\<close>

definition getMeasurement :: "'n measurementSet \<Rightarrow> string \<Rightarrow> error + 'n dataPoint list" where
  "getMeasurement ms metric =
     (case find (\<lambda>m. measurement.name m = metric) (measurements ms) of
        None \<Rightarrow> Inl TypeError
      | Some m \<Rightarrow> Inr (dataPoints m))"

text \<open>Lines 40 to 45.\<close>

definition getDatapointsAvg :: "'n arith \<Rightarrow> 'n dataPoint list \<Rightarrow> 'n" where
  "getDatapointsAvg A datapoints =
     (let values = map value_dp datapoints;
          total = foldl (\<lambda>prev current. add A prev current) (num A 0) values;
          avg = divide A total (num A (real (length datapoints)))
      in avg)"

text \<open>Lines 47 to 51.\<close>

definition getMemoryUsage :: "'n arith \<Rightarrow> 'n measurementSet \<Rightarrow> error + 'n" where
  "getMemoryUsage A ms =
     (case getMeasurement ms METRICS_MEMORY_available of
        Inl e \<Rightarrow> Inl e
      | Inr datapoints \<Rightarrow> Inr (getDatapointsAvg A datapoints))"

text \<open>Lines 56 to 60: the loop over the metric names that are left, with \<open>totalUsage\<close>.\<close>

fun cpuLoop :: "'n arith \<Rightarrow> 'n measurementSet \<Rightarrow> string list \<Rightarrow> 'n \<Rightarrow> error + 'n" where
  "cpuLoop A ms [] totalUsage = Inr totalUsage"
| "cpuLoop A ms (metric # metrics) totalUsage =
     (case getMeasurement ms metric of
        Inl e \<Rightarrow> Inl e
      | Inr datapoints \<Rightarrow>
          cpuLoop A ms metrics (add A totalUsage (getDatapointsAvg A datapoints)))"

text \<open>Lines 53 to 62.\<close>

definition getCpuUsage :: "'n arith \<Rightarrow> 'n measurementSet \<Rightarrow> error + 'n" where
  "getCpuUsage A ms = cpuLoop A ms METRICS_CPU (num A 0)"

subsection \<open>Process usage, energy and total\<close>

text \<open>
  \<^verbatim>\<open>hardwareSpec.json\<close> is not part of the sources: the table is a parameter, an
  object whose keys are instance sizes and whose values are objects keyed by provider.
\<close>

record 'n hardware =
  CPU :: 'n
  memory :: 'n

type_synonym 'n hardwareSpec = "string \<Rightarrow> (string \<Rightarrow> 'n hardware option) option"

record 'n usage =
  processId :: string
  clusterName :: string
  providerName :: string
  instanceSizeName :: string
  region :: string
  memoryUsageGb :: 'n
  cpuUsage :: 'n
  diskSizeGb :: 'n
  nCpu :: 'n
  memoryAvail :: 'n
  PUE :: 'n
  gCO2ekWh :: 'n

text \<open>
  Lines 152 to 177, the callback of \<^verbatim>\<open>processes.map\<close>. \<open>fetchMeasurements\<close> is the
  answer of the measurement endpoint for a process id; \<open>None\<close> stands for the
  \<^verbatim>\<open>undefined\<close> that \<^verbatim>\<open>fetch\<close> returns on an error payload (line 79).
\<close>

definition processUsageCallback ::
  "'n arith \<Rightarrow> 'n hardwareSpec \<Rightarrow> (string \<Rightarrow> 'n measurementSet option) \<Rightarrow> 'n process
     \<Rightarrow> error + 'n usage" where
  "processUsageCallback A hardwareSpec fetchMeasurements p =
     (case fetchMeasurements (id_process p) of
        None \<Rightarrow> Inl TypeError
      | Some ms \<Rightarrow>
     (case getMemoryUsage A ms of
        Inl e \<Rightarrow> Inl e
      | Inr memoryUsage \<Rightarrow>
     (case getCpuUsage A ms of
        Inl e \<Rightarrow> Inl e
      | Inr cpuUsage' \<Rightarrow>
     (case hardwareSpec (providerSettings.instanceSizeName (process.providerSettings p)) of
        None \<Rightarrow> Inl TypeError
      | Some byProvider \<Rightarrow>
     (case byProvider (providerSettings.providerName (process.providerSettings p)) of
        None \<Rightarrow> Inl TypeError
      | Some hardware \<Rightarrow>
          Inr \<lparr>processId = id_process p,
               clusterName = cluster p,
               providerName = toUpperCase (providerSettings.providerName (process.providerSettings p)),
               instanceSizeName = providerSettings.instanceSizeName (process.providerSettings p),
               region = providerSettings.regionName (process.providerSettings p),
               memoryUsageGb = divide A memoryUsage (num A 1000000),
               cpuUsage = cpuUsage',
               diskSizeGb = process.diskSizeGb p,
               nCpu = CPU hardware,
               memoryAvail = memory hardware,
               PUE = process.PUE p,
               gCO2ekWh = process.gCO2ekWh p\<rparr>)))))"

text \<open>
  Line 152: \<^verbatim>\<open>Promise.all\<close> over the callbacks gives the results in the order of
  the processes, or fails when one of them fails.
\<close>

fun processUsage ::
  "'n arith \<Rightarrow> 'n hardwareSpec \<Rightarrow> (string \<Rightarrow> 'n measurementSet option) \<Rightarrow> 'n process list
     \<Rightarrow> error + 'n usage list" where
  "processUsage A hardwareSpec fetchMeasurements [] = Inr []"
| "processUsage A hardwareSpec fetchMeasurements (p # ps) =
     (case processUsageCallback A hardwareSpec fetchMeasurements p of
        Inl e \<Rightarrow> Inl e
      | Inr u \<Rightarrow>
          (case processUsage A hardwareSpec fetchMeasurements ps of
             Inl e \<Rightarrow> Inl e
           | Inr us \<Rightarrow> Inr (u # us)))"

text \<open>Line 187, with the products and sums associated to the left as JavaScript does.\<close>

definition energy :: "'n arith \<Rightarrow> 'n granularityParams \<Rightarrow> 'n usage \<Rightarrow> 'n" where
  "energy A params p =
     mul A
       (mul A
          (mul A
             (mul A (runningTimeHours params)
                (add A
                   (add A (mul A (mul A (nCpu p) (num A 12.4)) (cpuUsage p))
                      (mul A (memoryAvail p) (num A 0.3725)))
                   (mul A (usage.diskSizeGb p) (num A 0.001))))
             (usage.PUE p))
          (num A 0.001))
       (usage.gCO2ekWh p)"

text \<open>Line 191: \<^verbatim>\<open>reduce\<close> without an initial value.\<close>

definition totalCarbon :: "'n arith \<Rightarrow> 'n list \<Rightarrow> error + 'n" where
  "totalCarbon A energies =
     (case energies of
        [] \<Rightarrow> Inl TypeError
      | e # es \<Rightarrow> Inr (foldl (\<lambda>a b. add A a b) e es))"

text \<open>Lines 98 to 191 of \<^verbatim>\<open>main\<close>, from the clusters of the chosen group to the total.\<close>

definition main ::
  "'n arith \<Rightarrow> row list \<Rightarrow> row list \<Rightarrow> 'n hardwareSpec
     \<Rightarrow> (string \<Rightarrow> 'n measurementSet option) \<Rightarrow> 'n cluster list \<Rightarrow> error + 'n" where
  "main A cloudProviders ciAggregated hardwareSpec fetchMeasurements clusters =
     (case mapClusters A cloudProviders ciAggregated [] clusters of
        Inl e \<Rightarrow> Inl e
      | Inr (clusters', processes) \<Rightarrow>
          (case processUsage A hardwareSpec fetchMeasurements processes of
             Inl e \<Rightarrow> Inl e
           | Inr us \<Rightarrow> totalCarbon A (map (energy A (GRANULARITY_PARAMS A)) us)))"

subsection \<open>A small fleet\<close>

text \<open>
  Reference tables, a hardware table and measurements on which the functions above
  are evaluated. The datacenter table ends with the row that the final line feed of a
  file produces.
\<close>

definition sampleCloudProviders :: "row list" where
  "sampleCloudProviders =
     [[''provider'', ''region'', ''location'', ''a'', ''b'', ''c'', ''PUE''],
      [''gcp'', ''us-central1'', ''US-IA'', [], [], [], ''1.11''],
      [''aws'', ''us-west-2'', ''US-OR'', [], [], [], ''1.15''],
      [''aws'', ''eu-west-1'', ''IE'', [], [], [], []],
      [[]]]"

definition sampleCiAggregated :: "row list" where
  "sampleCiAggregated =
     [[''location'', ''continent'', ''country'', ''region'', ''intensity''],
      [''IE'', ''Europe'', ''Ireland'', [], ''316'']]"

definition sampleHardwareSpec :: "number hardwareSpec" where
  "sampleHardwareSpec =
     [''M10'' \<mapsto> [''AWS'' \<mapsto> \<lparr>CPU = Finite 2, memory = Finite 8\<rparr>]]"

definition sampleSeries :: "string \<Rightarrow> real list \<Rightarrow> number measurement" where
  "sampleSeries metric vs =
     \<lparr>name = metric, dataPoints = map (\<lambda>v. \<lparr>timestamp = [], value_dp = Finite v\<rparr>) vs\<rparr>"

definition sampleMeasurements :: "number measurementSet" where
  "sampleMeasurements =
     \<lparr>measurements =
        sampleSeries METRICS_MEMORY_available [3000000, 5000000] #
        sampleSeries ''SYSTEM_NORMALIZED_CPU_USER'' [1 / 2, 1, 3 / 2] #
        map (\<lambda>metric. sampleSeries metric [0, 0]) (tl METRICS_CPU)\<rparr>"

definition sampleSettings :: "string \<Rightarrow> string \<Rightarrow> string \<Rightarrow> providerSettings" where
  "sampleSettings sz provider reg =
     \<lparr>providerSettings.instanceSizeName = sz, providerSettings.providerName = provider,
      providerSettings.regionName = reg\<rparr>"

definition sampleCluster :: "string \<Rightarrow> string \<Rightarrow> string \<Rightarrow> number cluster" where
  "sampleCluster sz provider reg =
     \<lparr>cluster.name = ''Cluster0'', cluster.providerSettings = sampleSettings sz provider reg,
      diskSizeGB = Finite 10, mongoURI = ''mongodb://h1:27017,h2:27017''\<rparr>"

definition sampleProcess :: "number process" where
  "sampleProcess =
     \<lparr>id_process = ''h1:27017'', cluster = ''Cluster0'',
      process.providerSettings = sampleSettings ''M10'' ''AWS'' ''us-east-1'',
      process.diskSizeGb = Finite 10, process.PUE = Finite 1.2, process.gCO2ekWh = Finite 475\<rparr>"

text \<open>The usage record of that process: the scenario of two cores at full load.\<close>

definition sampleUsage :: "number usage" where
  "sampleUsage =
     \<lparr>processId = ''h1:27017'', clusterName = ''Cluster0'', providerName = ''AWS'',
      instanceSizeName = ''M10'', region = ''us-east-1'', memoryUsageGb = Finite 4,
      cpuUsage = Finite 1, diskSizeGb = Finite 10, nCpu = Finite 2, memoryAvail = Finite 8,
      PUE = Finite 1.2, gCO2ekWh = Finite 475\<rparr>"

section \<open>Properties\<close>

subsection \<open>Region normalization and the datacenter lookup\<close>

lemma toUpperCaseChar_idem: "toUpperCaseChar (toUpperCaseChar c) = toUpperCaseChar c"
  by (simp add: toUpperCaseChar_def)

lemma toUpperCaseChar_separator:
  "(toUpperCaseChar c \<noteq> CHR ''_'' \<and> toUpperCaseChar c \<noteq> CHR ''-'' \<and> toUpperCaseChar c \<noteq> CHR '' '')
     = (c \<noteq> CHR ''_'' \<and> c \<noteq> CHR ''-'' \<and> c \<noteq> CHR '' '')"
  by (simp add: toUpperCaseChar_def)

lemma toUpperCase_idem: "toUpperCase (toUpperCase s) = toUpperCase s"
  by (simp add: toUpperCase_def toUpperCaseChar_idem)

lemma toUpperCase_stripSeparators:
  "toUpperCase (stripSeparators s) = stripSeparators (toUpperCase s)"
  by (induction s) (simp_all add: toUpperCase_def stripSeparators_def toUpperCaseChar_separator)

lemma stripSeparators_idem: "stripSeparators (stripSeparators s) = stripSeparators s"
  by (simp add: stripSeparators_def)

lemma normalize_idem:
  "stripSeparators (toUpperCase (stripSeparators (toUpperCase s))) = stripSeparators (toUpperCase s)"
  by (simp add: toUpperCase_stripSeparators toUpperCase_idem stripSeparators_idem)

lemma findRow_total:
  "\<forall>c\<in>set cs. \<exists>b. P c = Inr b \<Longrightarrow> findRow P cs = Inr (find (\<lambda>c. P c = Inr True) cs)"
  by (induction cs) auto

lemma findRow_none:
  "\<forall>c\<in>set cs. P c = Inr False \<Longrightarrow> findRow P cs = Inr None"
  by (induction cs) auto

lemma rowMatches_wellformed:
  assumes "field c 0 = Some c0"
    and "toUpperCase c0 = p \<longrightarrow> (\<exists>c1. field c 1 = Some c1)"
  shows "rowMatches p r c =
           Inr (case (field c 0, field c 1) of
                  (Some a, Some b) \<Rightarrow>
                    toUpperCase a = p \<and> stripSeparators (toUpperCase b) = stripSeparators r
                | _ \<Rightarrow> False)"
  using assms by (auto simp: rowMatches_def split: option.splits)

lemma split_not_Nil: "split d s \<noteq> []"
  by (induction s) (simp_all split: list.splits)

lemma loadTable_provider_cell:
  "c \<in> set (loadTable contents) \<Longrightarrow> \<exists>c0. field c 0 = Some c0"
  by (auto simp: loadTable_def field_def split_not_Nil)

lemma loadTable_final_line_feed:
  "loadTable (''aws,us-west-2,US-OR'' @ [CHR 0x0A]) = [[''aws'', ''us-west-2'', ''US-OR''], [[]]]"
  by code_simp

lemma rowMatches_False_iff:
  "rowMatches p r c = Inr False \<longleftrightarrow>
     (\<exists>c0. field c 0 = Some c0 \<and>
        (toUpperCase c0 \<noteq> p \<or>
         (\<exists>c1. field c 1 = Some c1 \<and> stripSeparators (toUpperCase c1) \<noteq> stripSeparators r)))"
  by (auto simp: rowMatches_def split: option.splits)

lemma rowMatches_region:
  "stripSeparators r1 = stripSeparators r2 \<Longrightarrow> rowMatches p r1 = rowMatches p r2"
  by (rule ext) (simp add: rowMatches_def split: option.splits)

text \<open>
  Claim C4. Upper-casing a region and removing its underscores, hyphens and spaces is
  idempotent. The datacenter lookup gives the same outcome for two regions with the
  same normal form, so for the spellings us-east-1, US_EAST_1 and useast1. When every
  row has a provider cell, and a region cell if its provider matches, that outcome is
  the first row in table order whose provider is equal up to case and whose normalized
  region is equal. Every row of a loaded table has a provider cell.
\<close>

theorem region_normalization:
  "stripSeparators (toUpperCase (stripSeparators (toUpperCase r))) = stripSeparators (toUpperCase r)
   \<and> (stripSeparators (toUpperCase r1) = stripSeparators (toUpperCase r2) \<longrightarrow>
        findCloudProvider cloudProviders provider r1 = findCloudProvider cloudProviders provider r2)
   \<and> findCloudProvider cloudProviders provider ''us-east-1''
        = findCloudProvider cloudProviders provider ''US_EAST_1''
   \<and> findCloudProvider cloudProviders provider ''US_EAST_1''
        = findCloudProvider cloudProviders provider ''useast1''
   \<and> ((\<forall>c\<in>set cloudProviders.
          \<exists>c0. field c 0 = Some c0 \<and>
            (toUpperCase c0 = toUpperCase provider \<longrightarrow> (\<exists>c1. field c 1 = Some c1))) \<longrightarrow>
        findCloudProvider cloudProviders provider r =
          Inr (find (\<lambda>c. case (field c 0, field c 1) of
                            (Some c0, Some c1) \<Rightarrow>
                              toUpperCase c0 = toUpperCase provider \<and>
                              stripSeparators (toUpperCase c1) = stripSeparators (toUpperCase r)
                          | _ \<Rightarrow> False)
                 cloudProviders))"
proof (intro conjI impI)
  show "stripSeparators (toUpperCase (stripSeparators (toUpperCase r))) = stripSeparators (toUpperCase r)"
    by (rule normalize_idem)
next
  assume "stripSeparators (toUpperCase r1) = stripSeparators (toUpperCase r2)"
  then show "findCloudProvider cloudProviders provider r1 = findCloudProvider cloudProviders provider r2"
    by (simp add: findCloudProvider_def rowMatches_region [of "toUpperCase r1" "toUpperCase r2"])
next
  have "stripSeparators (toUpperCase ''us-east-1'') = stripSeparators (toUpperCase ''US_EAST_1'')"
    by (simp add: stripSeparators_def toUpperCase_def toUpperCaseChar_def)
  then show "findCloudProvider cloudProviders provider ''us-east-1''
        = findCloudProvider cloudProviders provider ''US_EAST_1''"
    unfolding findCloudProvider_def by (rule arg_cong [OF rowMatches_region])
next
  have "stripSeparators (toUpperCase ''US_EAST_1'') = stripSeparators (toUpperCase ''useast1'')"
    by (simp add: stripSeparators_def toUpperCase_def toUpperCaseChar_def)
  then show "findCloudProvider cloudProviders provider ''US_EAST_1''
        = findCloudProvider cloudProviders provider ''useast1''"
    unfolding findCloudProvider_def by (rule arg_cong [OF rowMatches_region])
next
  let ?p = "toUpperCase provider" and ?r = "toUpperCase r"
  let ?Q = "\<lambda>c. case (field c 0, field c 1) of
                (Some c0, Some c1) \<Rightarrow>
                  toUpperCase c0 = ?p \<and> stripSeparators (toUpperCase c1) = stripSeparators ?r
              | _ \<Rightarrow> False"
  assume "\<forall>c\<in>set cloudProviders.
          \<exists>c0. field c 0 = Some c0 \<and>
            (toUpperCase c0 = toUpperCase provider \<longrightarrow> (\<exists>c1. field c 1 = Some c1))"
  then have eq: "\<forall>c\<in>set cloudProviders. rowMatches ?p ?r c = Inr (?Q c)"
    by (blast intro: rowMatches_wellformed)
  then have "findRow (rowMatches ?p ?r) cloudProviders
      = Inr (find (\<lambda>c. rowMatches ?p ?r c = Inr True) cloudProviders)"
    by (intro findRow_total) blast
  also have "find (\<lambda>c. rowMatches ?p ?r c = Inr True) cloudProviders = find ?Q cloudProviders"
    using eq by (intro find_cong) auto
  finally show "findCloudProvider cloudProviders provider r = Inr (find ?Q cloudProviders)"
    by (simp add: findCloudProvider_def)
qed

theorem region_normalization_witness:
  "stripSeparators (toUpperCase ''us west-2'') = stripSeparators (toUpperCase ''US_WEST_2'')
   \<and> list_all (\<lambda>c. \<exists>c0. field c 0 = Some c0 \<and>
                  (toUpperCase c0 = toUpperCase ''Aws'' \<longrightarrow> (\<exists>c1. field c 1 = Some c1)))
         sampleCloudProviders
   \<and> findCloudProvider sampleCloudProviders ''Aws'' ''us west-2''
       = Inr (Some [''aws'', ''us-west-2'', ''US-OR'', [], [], [], ''1.15''])
   \<and> findCloudProvider sampleCloudProviders ''Aws'' ''US_WEST_2''
       = findCloudProvider sampleCloudProviders ''Aws'' ''us west-2''"
proof -
  have n: "stripSeparators (toUpperCase ''us west-2'') = stripSeparators (toUpperCase ''US_WEST_2'')"
    by code_simp
  have "\<forall>c\<in>set sampleCloudProviders.
      field c 0 \<noteq> None \<and> (toUpperCase (c ! 0) = toUpperCase ''Aws'' \<longrightarrow> field c 1 \<noteq> None)"
    by code_simp
  then have wf: "\<forall>c\<in>set sampleCloudProviders.
      \<exists>c0. field c 0 = Some c0 \<and>
        (toUpperCase c0 = toUpperCase ''Aws'' \<longrightarrow> (\<exists>c1. field c 1 = Some c1))"
    by (auto simp: field_def split: if_splits)
  have row: "find (\<lambda>c. case (field c 0, field c 1) of
                      (Some c0, Some c1) \<Rightarrow>
                        toUpperCase c0 = toUpperCase ''Aws'' \<and>
                        stripSeparators (toUpperCase c1) = stripSeparators (toUpperCase ''us west-2'')
                    | _ \<Rightarrow> False)
               sampleCloudProviders
             = Some [''aws'', ''us-west-2'', ''US-OR'', [], [], [], ''1.15'']"
    by code_simp
  note t = region_normalization [where ?r1.0 = "''us west-2''" and ?r2.0 = "''US_WEST_2''"
      and cloudProviders = sampleCloudProviders and provider = "''Aws''" and r = "''us west-2''"]
  note same = t [THEN conjunct2, THEN conjunct1, THEN mp, OF n]
  note first = t [THEN conjunct2, THEN conjunct2, THEN conjunct2, THEN conjunct2, THEN mp, OF wf]
  show ?thesis
    by (intro conjI) (rule n wf [folded list_all_iff] same [symmetric] first [unfolded row])+
qed

subsection \<open>PUE and carbon intensity of a cluster\<close>

lemma defaultPUE_cases:
  "defaultPUE A p =
     (if p = ''AWS'' then num A 1.2
      else if p = ''AZURE'' then num A 1.125
      else if p = ''GCP'' then num A 1.11
      else num A 1.67)"
  by (simp add: defaultPUE_def)

text \<open>
  Claim C2. When no row of the datacenter table matches the provider (equal up to
  case) and the region (equal after upper-casing and removing underscores, hyphens and
  spaces), the carbon intensity is 475 and the PUE is the default of the provider:
  1.2 for AWS, 1.125 for AZURE, 1.11 for GCP, each up to case, and 1.67 for every
  other name.
\<close>

theorem no_match_defaults:
  assumes "\<forall>c\<in>set cloudProviders.
             \<exists>c0. field c 0 = Some c0 \<and>
               (toUpperCase c0 = toUpperCase (providerSettings.providerName s) \<longrightarrow>
                  (\<exists>c1. field c 1 = Some c1 \<and>
                     stripSeparators (toUpperCase c1)
                       \<noteq> stripSeparators (toUpperCase (providerSettings.regionName s))))"
  shows "resolveFactors A cloudProviders ciAggregated s =
           Inr (if toUpperCase (providerSettings.providerName s) = ''AWS'' then num A 1.2
                else if toUpperCase (providerSettings.providerName s) = ''AZURE'' then num A 1.125
                else if toUpperCase (providerSettings.providerName s) = ''GCP'' then num A 1.11
                else num A 1.67,
                num A 475)"
proof -
  from assms have "\<forall>c\<in>set cloudProviders.
      rowMatches (toUpperCase (providerSettings.providerName s))
        (toUpperCase (providerSettings.regionName s)) c = Inr False"
    unfolding rowMatches_False_iff by blast
  then have "findCloudProvider cloudProviders (providerSettings.providerName s)
      (providerSettings.regionName s) = Inr None"
    unfolding findCloudProvider_def by (rule findRow_none)
  then show ?thesis
    by (simp add: resolveFactors_def applyCloudProvider_def defaultPUE_cases)
qed

theorem no_match_defaults_witness:
  "list_all
     (\<lambda>c. \<exists>c0. field c 0 = Some c0 \<and>
        (toUpperCase c0
           = toUpperCase (providerSettings.providerName (sampleSettings ''M10'' ''Aws'' ''us-east-1'')) \<longrightarrow>
         (\<exists>c1. field c 1 = Some c1 \<and>
            stripSeparators (toUpperCase c1)
              \<noteq> stripSeparators
                  (toUpperCase (providerSettings.regionName (sampleSettings ''M10'' ''Aws'' ''us-east-1''))))))
     sampleCloudProviders
   \<and> resolveFactors exact sampleCloudProviders sampleCiAggregated (sampleSettings ''M10'' ''Aws'' ''us-east-1'')
       = Inr (Finite 1.2, Finite 475)"
proof -
  let ?s = "sampleSettings ''M10'' ''Aws'' ''us-east-1''"
  have "\<forall>c\<in>set sampleCloudProviders.
      rowMatches (toUpperCase (providerSettings.providerName ?s))
        (toUpperCase (providerSettings.regionName ?s)) c = Inr False"
    by code_simp
  then have h: "\<forall>c\<in>set sampleCloudProviders.
      \<exists>c0. field c 0 = Some c0 \<and>
        (toUpperCase c0 = toUpperCase (providerSettings.providerName ?s) \<longrightarrow>
           (\<exists>c1. field c 1 = Some c1 \<and>
              stripSeparators (toUpperCase c1)
                \<noteq> stripSeparators (toUpperCase (providerSettings.regionName ?s))))"
    unfolding rowMatches_False_iff by blast
  have up: "toUpperCase (providerSettings.providerName ?s) = ''AWS''"
    by code_simp
  have "resolveFactors exact sampleCloudProviders sampleCiAggregated ?s
       = Inr (Finite 1.2, Finite 475)"
    unfolding no_match_defaults [OF h, of exact sampleCiAggregated] up
    by (simp add: exact_def)
  with h [folded list_all_iff] show ?thesis by (intro conjI)
qed

text \<open>
  Claim C3. When the lookup finds a datacenter row: if its PUE cell (column 6) is a
  non-empty string, the PUE is \<^verbatim>\<open>parseFloat\<close> of that cell; and if no row of the
  intensity table has the row's join key (column 2) in column 0, the carbon intensity
  is 475. Both hold of the same result, so the override applies with the fallback.
\<close>

theorem override_and_fallback:
  assumes "findCloudProvider cloudProviders (providerSettings.providerName s)
             (providerSettings.regionName s) = Inr (Some cp)"
  shows "\<exists>pue ci. resolveFactors A cloudProviders ciAggregated s = Inr (pue, ci)
           \<and> (\<forall>v. field cp 6 = Some v \<and> v \<noteq> [] \<longrightarrow> pue = parseFloat A v)
           \<and> ((\<forall>r\<in>set ciAggregated. field r 0 \<noteq> field cp 2) \<longrightarrow> ci = num A 475)"
proof -
  have "(\<forall>r\<in>set ciAggregated. field r 0 \<noteq> field cp 2) \<longrightarrow>
      find (\<lambda>ci. field ci 0 = field cp 2) ciAggregated = None"
    by (simp add: find_None_iff)
  with assms show ?thesis
    by (auto simp: resolveFactors_def applyCloudProvider_def parseFloatField_def)
qed

theorem override_and_fallback_witness:
  "findCloudProvider sampleCloudProviders
       (providerSettings.providerName (sampleSettings ''M10'' ''AWS'' ''us west 2''))
       (providerSettings.regionName (sampleSettings ''M10'' ''AWS'' ''us west 2''))
      = Inr (Some [''aws'', ''us-west-2'', ''US-OR'', [], [], [], ''1.15''])
   \<and> field [''aws'', ''us-west-2'', ''US-OR'', [], [], [], ''1.15''] 6 = Some ''1.15''
   \<and> list_all (\<lambda>r. field r 0 \<noteq> field [''aws'', ''us-west-2'', ''US-OR'', [], [], [], ''1.15''] 2)
         sampleCiAggregated
   \<and> resolveFactors exact sampleCloudProviders sampleCiAggregated
        (sampleSettings ''M10'' ''AWS'' ''us west 2'')
       = Inr (Finite 1.15, Finite 475)"
proof -
  let ?s = "sampleSettings ''M10'' ''AWS'' ''us west 2''"
  let ?cp = "[''aws'', ''us-west-2'', ''US-OR'', [], [], [], ''1.15'']"
  have h: "findCloudProvider sampleCloudProviders (providerSettings.providerName ?s)
      (providerSettings.regionName ?s) = Inr (Some ?cp)"
    by code_simp
  have f6: "field ?cp 6 = Some ''1.15''"
    by code_simp
  have key: "\<forall>r\<in>set sampleCiAggregated. field r 0 \<noteq> field ?cp 2"
    by code_simp
  have pf: "parseFloat exact ''1.15'' = Finite 1.15"
    by code_simp
  from override_and_fallback [OF h, of exact sampleCiAggregated]
  obtain pue ci where r: "resolveFactors exact sampleCloudProviders sampleCiAggregated ?s = Inr (pue, ci)"
    and p: "\<forall>v. field ?cp 6 = Some v \<and> v \<noteq> [] \<longrightarrow> pue = parseFloat exact v"
    and c: "(\<forall>r\<in>set sampleCiAggregated. field r 0 \<noteq> field ?cp 2) \<longrightarrow> ci = num exact 475"
    by blast
  from p f6 have "pue = parseFloat exact ''1.15''" by blast
  moreover from c key have "ci = num exact 475" by blast
  ultimately have "resolveFactors exact sampleCloudProviders sampleCiAggregated ?s
      = Inr (Finite 1.15, Finite 475)"
    using r pf by (simp add: exact_def)
  with h f6 key [folded list_all_iff] show ?thesis by (intro conjI)
qed

subsection \<open>CPU utilization\<close>

lemma getMeasurement_absent:
  "metric \<notin> measurement.name ` set (measurements ms) \<Longrightarrow> getMeasurement ms metric = Inl TypeError"
proof -
  assume "metric \<notin> measurement.name ` set (measurements ms)"
  then have "find (\<lambda>m. measurement.name m = metric) (measurements ms) = None"
    by (auto simp: find_None_iff)
  then show ?thesis by (simp add: getMeasurement_def)
qed

lemma getMeasurement_present:
  "metric \<in> measurement.name ` set (measurements ms) \<Longrightarrow> \<exists>d. getMeasurement ms metric = Inr d"
proof -
  assume "metric \<in> measurement.name ` set (measurements ms)"
  then have "find (\<lambda>m. measurement.name m = metric) (measurements ms) \<noteq> None"
    by (auto simp: find_None_iff)
  then show ?thesis by (auto simp: getMeasurement_def)
qed

lemma series_exist:
  "\<forall>metric\<in>set metrics. \<exists>d. getMeasurement ms metric = Inr d \<Longrightarrow>
     \<exists>ds. list_all2 (\<lambda>metric d. getMeasurement ms metric = Inr d) metrics ds"
proof (induction metrics)
  case Nil
  show ?case by simp
next
  case (Cons metric metrics)
  then obtain d ds where "getMeasurement ms metric = Inr d"
    and "list_all2 (\<lambda>metric d. getMeasurement ms metric = Inr d) metrics ds"
    by auto
  then have "list_all2 (\<lambda>metric d. getMeasurement ms metric = Inr d) (metric # metrics) (d # ds)"
    by simp
  then show ?case by blast
qed

lemma cpuLoop_sum:
  "list_all2 (\<lambda>metric d. getMeasurement ms metric = Inr d) metrics ds \<Longrightarrow>
     cpuLoop A ms metrics totalUsage
       = Inr (foldl (add A) totalUsage (map (getDatapointsAvg A) ds))"
  by (induction metrics ds arbitrary: totalUsage rule: list_all2_induct) simp_all

lemma cpuLoop_missing:
  "metric \<in> set metrics \<Longrightarrow> getMeasurement ms metric = Inl TypeError \<Longrightarrow>
     cpuLoop A ms metrics totalUsage = Inl TypeError"
proof (induction metrics arbitrary: totalUsage)
  case Nil
  then show ?case by simp
next
  case (Cons m metrics)
  show ?case
  proof (cases "getMeasurement ms m")
    case (Inl e)
    then show ?thesis by (cases e) simp
  next
    case (Inr d)
    with Cons.prems have "metric \<in> set metrics" by auto
    with Cons.IH Cons.prems(2) Inr show ?thesis by simp
  qed
qed

text \<open>
  Claim C5. When the measurement set has a series for each of the eight CPU metrics,
  each lookup by name succeeds and the normalized CPU utilization is the sum, from 0
  and in the order of the metrics, of the averages of the eight series found. When one
  of the eight names is absent from the measurement set, the computation fails.
\<close>

theorem cpu_usage_sum_or_error:
  "(set METRICS_CPU \<subseteq> measurement.name ` set (measurements ms) \<longrightarrow>
      (\<exists>ds. list_all2 (\<lambda>metric d. getMeasurement ms metric = Inr d) METRICS_CPU ds)
      \<and> (\<forall>ds. list_all2 (\<lambda>metric d. getMeasurement ms metric = Inr d) METRICS_CPU ds \<longrightarrow>
            length ds = 8 \<and>
            getCpuUsage A ms = Inr (foldl (add A) (num A 0) (map (getDatapointsAvg A) ds))))
   \<and> (metric \<in> set METRICS_CPU \<and> metric \<notin> measurement.name ` set (measurements ms) \<longrightarrow>
        getCpuUsage A ms = Inl TypeError)"
proof (intro conjI impI allI)
  assume "set METRICS_CPU \<subseteq> measurement.name ` set (measurements ms)"
  then have "\<forall>metric\<in>set METRICS_CPU. \<exists>d. getMeasurement ms metric = Inr d"
    by (blast intro: getMeasurement_present)
  then show "\<exists>ds. list_all2 (\<lambda>metric d. getMeasurement ms metric = Inr d) METRICS_CPU ds"
    by (rule series_exist)
next
  fix ds
  assume "list_all2 (\<lambda>metric d. getMeasurement ms metric = Inr d) METRICS_CPU ds"
  then have "length METRICS_CPU = length ds"
    by (rule list_all2_lengthD)
  then show "length ds = 8" by (simp add: METRICS_CPU_def)
next
  fix ds
  assume "list_all2 (\<lambda>metric d. getMeasurement ms metric = Inr d) METRICS_CPU ds"
  then show "getCpuUsage A ms = Inr (foldl (add A) (num A 0) (map (getDatapointsAvg A) ds))"
    unfolding getCpuUsage_def by (rule cpuLoop_sum)
next
  assume "metric \<in> set METRICS_CPU \<and> metric \<notin> measurement.name ` set (measurements ms)"
  then show "getCpuUsage A ms = Inl TypeError"
    unfolding getCpuUsage_def by (blast intro: cpuLoop_missing getMeasurement_absent)
qed

theorem cpu_usage_sum_or_error_witness:
  "set METRICS_CPU \<subseteq> measurement.name ` set (measurements sampleMeasurements)
   \<and> getCpuUsage exact sampleMeasurements = Inr (Finite 1)
   \<and> ''SYSTEM_NORMALIZED_CPU_STEAL'' \<in> set METRICS_CPU
   \<and> ''SYSTEM_NORMALIZED_CPU_STEAL''
        \<notin> measurement.name ` set (measurements \<lparr>measurements = butlast (measurements sampleMeasurements)\<rparr>)
   \<and> getCpuUsage exact \<lparr>measurements = butlast (measurements sampleMeasurements)\<rparr> = Inl TypeError"
proof -
  let ?ds = "map (\<lambda>m. dataPoints m) (tl (measurements sampleMeasurements))"
  let ?short = "\<lparr>measurements = butlast (measurements sampleMeasurements)\<rparr>"
  have present: "set METRICS_CPU \<subseteq> measurement.name ` set (measurements sampleMeasurements)"
    by (simp add: METRICS_CPU_def sampleMeasurements_def sampleSeries_def)
  have series: "list_all2 (\<lambda>metric d. getMeasurement sampleMeasurements metric = Inr d) METRICS_CPU ?ds"
    by code_simp
  have total: "foldl (add exact) (num exact 0) (map (getDatapointsAvg exact) ?ds) = Finite 1"
    by code_simp
  have steal: "''SYSTEM_NORMALIZED_CPU_STEAL'' \<in> set METRICS_CPU"
    by (simp add: METRICS_CPU_def)
  have absent: "''SYSTEM_NORMALIZED_CPU_STEAL'' \<notin> measurement.name ` set (measurements ?short)"
    by (simp add: METRICS_CPU_def METRICS_MEMORY_available_def sampleMeasurements_def sampleSeries_def)
  note t = cpu_usage_sum_or_error [of sampleMeasurements exact]
  from t present series have "getCpuUsage exact sampleMeasurements
      = Inr (foldl (add exact) (num exact 0) (map (getDatapointsAvg exact) ?ds))"
    by blast
  then have ok: "getCpuUsage exact sampleMeasurements = Inr (Finite 1)"
    by (simp only: total)
  from cpu_usage_sum_or_error [of ?short exact "''SYSTEM_NORMALIZED_CPU_STEAL''"] steal absent
  have err: "getCpuUsage exact ?short = Inl TypeError"
    by blast
  from present ok steal absent err show ?thesis by (intro conjI)
qed

subsection \<open>Fleet total\<close>

lemma foldl_addNumber_Finite:
  "foldl addNumber (Finite a) (map Finite rs) = Finite (a + sum_list rs)"
  by (induction rs arbitrary: a) (simp_all add: add.assoc)

text \<open>
  Claim C6. The fleet total of an empty list of energies is an error, not zero; the
  total of a non-empty list is the sum of its elements, added from the left, which in
  exact arithmetic is the sum of the finite values. With no cluster there is no
  process, and the whole computation ends in that error.
\<close>

theorem total_is_sum_or_error:
  "totalCarbon A [] = Inl TypeError
   \<and> totalCarbon A (e # es) = Inr (foldl (add A) e es)
   \<and> totalCarbon exact (map Finite (r # rs)) = Inr (Finite (sum_list (r # rs)))
   \<and> main A cloudProviders ciAggregated hardwareSpec fetchMeasurements [] = Inl TypeError"
  by (simp add: totalCarbon_def main_def exact_def foldl_addNumber_Finite)

theorem total_is_sum_or_error_witness:
  "totalCarbon exact [] = Inl TypeError
   \<and> totalCarbon exact [Finite 1, Finite 2] = Inr (Finite 3)
   \<and> main exact sampleCloudProviders sampleCiAggregated sampleHardwareSpec (\<lambda>i. None) []
       = Inl TypeError"
  using total_is_sum_or_error [of exact "Finite 1" "[Finite 2]" 1 "[2]" sampleCloudProviders
      sampleCiAggregated sampleHardwareSpec "\<lambda>i. None"]
  by (simp add: exact_def)

subsection \<open>Excluded tiers\<close>

lemma excluded_callback:
  "providerSettings.instanceSizeName (cluster.providerSettings c) \<in> {''M0'', ''M2'', ''M5''} \<Longrightarrow>
     clusterCallback A cloudProviders ciAggregated processes c = Inr (None, processes)"
  by (auto simp: clusterCallback_def)

lemma excluded_mapClusters:
  "providerSettings.instanceSizeName (cluster.providerSettings c) \<in> {''M0'', ''M2'', ''M5''} \<Longrightarrow>
     mapClusters A cloudProviders ciAggregated processes (before @ c # after)
       = mapClusters A cloudProviders ciAggregated processes (before @ after)"
proof (induction before arbitrary: processes)
  case Nil
  then show ?case
    by (simp add: excluded_callback split: sum.splits prod.splits)
next
  case (Cons b before)
  then show ?case
    by (simp split: sum.splits prod.splits)
qed

text \<open>
  Claim C7. A cluster whose instance size is M0, M2 or M5 is dropped by the callback
  with the array of processes unchanged, whatever its other fields; the clusters kept
  and the processes of a fleet are those of the fleet without that cluster.
\<close>

theorem small_tiers_excluded:
  assumes "providerSettings.instanceSizeName (cluster.providerSettings c) \<in> {''M0'', ''M2'', ''M5''}"
  shows "clusterCallback A cloudProviders ciAggregated processes c = Inr (None, processes)
         \<and> mapClusters A cloudProviders ciAggregated processes (before @ c # after)
             = mapClusters A cloudProviders ciAggregated processes (before @ after)"
  using assms by (simp only: excluded_callback excluded_mapClusters)


theorem small_tiers_excluded_witness:
  "providerSettings.instanceSizeName (cluster.providerSettings (sampleCluster ''M2'' ''AWS'' ''us-west-2''))
     \<in> {''M0'', ''M2'', ''M5''}
   \<and> clusterCallback exact sampleCloudProviders sampleCiAggregated []
       (sampleCluster ''M2'' ''AWS'' ''us-west-2'') = Inr (None, [])
   \<and> mapClusters exact sampleCloudProviders sampleCiAggregated []
       ([sampleCluster ''M10'' ''AWS'' ''us-east-1''] @ sampleCluster ''M2'' ''AWS'' ''us-west-2'' # [])
       = mapClusters exact sampleCloudProviders sampleCiAggregated []
           ([sampleCluster ''M10'' ''AWS'' ''us-east-1''] @ [])"
proof -
  have h: "providerSettings.instanceSizeName
      (cluster.providerSettings (sampleCluster ''M2'' ''AWS'' ''us-west-2'')) \<in> {''M0'', ''M2'', ''M5''}"
    by (simp add: sampleCluster_def sampleSettings_def)
  from h small_tiers_excluded [OF h] show ?thesis by (intro conjI) blast+
qed

subsection \<open>The energy of a process\<close>

lemma clusterCallback_kept:
  assumes "clusterCallback A cloudProviders ciAggregated processes c = Inr (kept, processes')"
    and "p \<in> set (drop (length processes) processes')"
  shows "\<exists>pue ci. resolveFactors A cloudProviders ciAggregated (cluster.providerSettings c) = Inr (pue, ci)
           \<and> process.providerSettings p = cluster.providerSettings c
           \<and> process.diskSizeGb p = diskSizeGB c
           \<and> process.PUE p = pue \<and> process.gCO2ekWh p = ci"
  using assms
  by (auto simp: clusterCallback_def Let_def split: if_splits sum.splits prod.splits)

lemma processUsageCallback_fields:
  assumes "processUsageCallback A hardwareSpec fetchMeasurements p = Inr u"
  shows "\<exists>ms cpu byProvider hardware.
           fetchMeasurements (id_process p) = Some ms
           \<and> getCpuUsage A ms = Inr cpu
           \<and> hardwareSpec (providerSettings.instanceSizeName (process.providerSettings p)) = Some byProvider
           \<and> byProvider (providerSettings.providerName (process.providerSettings p)) = Some hardware
           \<and> nCpu u = CPU hardware \<and> cpuUsage u = cpu \<and> memoryAvail u = memory hardware
           \<and> usage.diskSizeGb u = process.diskSizeGb p
           \<and> usage.PUE u = process.PUE p \<and> usage.gCO2ekWh u = process.gCO2ekWh p"
  using assms
  by (auto simp: processUsageCallback_def split: option.splits sum.splits)

text \<open>
  Claim C1. For every process materialized from a cluster and measured successfully,
  the energy is 24 times (cores times 12.4 times CPU utilization, plus memory capacity
  times 0.3725, plus disk size times 0.001) times PUE times 0.001 times carbon
  intensity, multiplied and added in this order: cores and memory capacity come from
  the hardware profile of the cluster's instance size and provider, the utilization is
  the CPU usage of the process's measurements, the disk size is the cluster's, and PUE
  and carbon intensity are the ones resolved for the cluster.
\<close>

theorem energy_formula:
  assumes "clusterCallback A cloudProviders ciAggregated processes c = Inr (kept, processes')"
    and "p \<in> set (drop (length processes) processes')"
    and "processUsageCallback A hardwareSpec fetchMeasurements p = Inr u"
  shows "\<exists>pue ci ms cpu byProvider hardware.
           resolveFactors A cloudProviders ciAggregated (cluster.providerSettings c) = Inr (pue, ci)
           \<and> fetchMeasurements (id_process p) = Some ms
           \<and> getCpuUsage A ms = Inr cpu
           \<and> hardwareSpec (providerSettings.instanceSizeName (cluster.providerSettings c)) = Some byProvider
           \<and> byProvider (providerSettings.providerName (cluster.providerSettings c)) = Some hardware
           \<and> energy A (GRANULARITY_PARAMS A) u =
               mul A
                 (mul A
                    (mul A
                       (mul A (num A 24)
                          (add A
                             (add A (mul A (mul A (CPU hardware) (num A 12.4)) cpu)
                                (mul A (memory hardware) (num A 0.3725)))
                             (mul A (diskSizeGB c) (num A 0.001))))
                       pue)
                    (num A 0.001))
                 ci"
proof -
  from clusterCallback_kept [OF assms(1,2)] obtain pue ci
    where r: "resolveFactors A cloudProviders ciAggregated (cluster.providerSettings c) = Inr (pue, ci)"
      and p: "process.providerSettings p = cluster.providerSettings c"
        "process.diskSizeGb p = diskSizeGB c" "process.PUE p = pue" "process.gCO2ekWh p = ci"
    by blast
  from processUsageCallback_fields [OF assms(3)] obtain ms cpu byProvider hardware
    where u: "fetchMeasurements (id_process p) = Some ms" "getCpuUsage A ms = Inr cpu"
        "hardwareSpec (providerSettings.instanceSizeName (process.providerSettings p)) = Some byProvider"
        "byProvider (providerSettings.providerName (process.providerSettings p)) = Some hardware"
      and f: "nCpu u = CPU hardware" "cpuUsage u = cpu" "memoryAvail u = memory hardware"
        "usage.diskSizeGb u = process.diskSizeGb p"
        "usage.PUE u = process.PUE p" "usage.gCO2ekWh u = process.gCO2ekWh p"
    by blast
  have "energy A (GRANULARITY_PARAMS A) u =
      mul A (mul A (mul A (mul A (num A 24)
        (add A (add A (mul A (mul A (CPU hardware) (num A 12.4)) cpu)
                  (mul A (memory hardware) (num A 0.3725)))
           (mul A (diskSizeGB c) (num A 0.001)))) pue) (num A 0.001)) ci"
    by (simp add: energy_def GRANULARITY_PARAMS_def f p)
  with r u p(1) show ?thesis by auto
qed

theorem energy_formula_witness:
  "clusterCallback exact sampleCloudProviders sampleCiAggregated []
       (sampleCluster ''M10'' ''AWS'' ''us-east-1'')
     = Inr (Some (sampleCluster ''M10'' ''AWS'' ''us-east-1''),
            [sampleProcess, sampleProcess\<lparr>id_process := ''h2:27017''\<rparr>])
   \<and> sampleProcess \<in> set (drop (length ([] :: number process list))
                              [sampleProcess, sampleProcess\<lparr>id_process := ''h2:27017''\<rparr>])
   \<and> processUsageCallback exact sampleHardwareSpec (\<lambda>i. Some sampleMeasurements) sampleProcess
       = Inr sampleUsage
   \<and> energy exact (GRANULARITY_PARAMS exact) sampleUsage = Finite 380.1672"
proof -
  let ?c = "sampleCluster ''M10'' ''AWS'' ''us-east-1''"
  let ?ps = "[sampleProcess, sampleProcess\<lparr>id_process := ''h2:27017''\<rparr>]"
  have h1: "clusterCallback exact sampleCloudProviders sampleCiAggregated [] ?c = Inr (Some ?c, ?ps)"
    by code_simp
  have h2: "sampleProcess \<in> set (drop (length ([] :: number process list)) ?ps)"
    by simp
  have h3: "processUsageCallback exact sampleHardwareSpec (\<lambda>i. Some sampleMeasurements) sampleProcess
      = Inr sampleUsage"
    by code_simp
  have r: "resolveFactors exact sampleCloudProviders sampleCiAggregated (cluster.providerSettings ?c)
      = Inr (Finite 1.2, Finite 475)"
    by code_simp
  have cpu: "getCpuUsage exact sampleMeasurements = Inr (Finite 1)"
    by code_simp
  have hw: "sampleHardwareSpec (providerSettings.instanceSizeName (cluster.providerSettings ?c))
      = Some [''AWS'' \<mapsto> \<lparr>CPU = Finite 2, memory = Finite 8\<rparr>]"
    "providerSettings.providerName (cluster.providerSettings ?c) = ''AWS''"
    "diskSizeGB ?c = Finite 10"
    by (simp_all add: sampleHardwareSpec_def sampleCluster_def sampleSettings_def)
  from energy_formula [OF h1 h2 h3] r cpu hw
  have "energy exact (GRANULARITY_PARAMS exact) sampleUsage = Finite 380.1672"
    by (auto simp: exact_def)
  with h1 h2 h3 show ?thesis by (intro conjI)
qed

lemma energy_exact:
  assumes "runningTimeHours params = Finite t"
    and "nCpu u = Finite n" and "cpuUsage u = Finite c" and "memoryAvail u = Finite m"
    and "usage.diskSizeGb u = Finite d" and "usage.PUE u = Finite pue"
    and "usage.gCO2ekWh u = Finite ci"
  shows "energy exact params u
           = Finite (t * (n * 12.4 * c + m * 0.3725 + d * 0.001) * pue * 0.001 * ci)"
  by (simp add: energy_def exact_def assms)


text \<open>
  Claim C8, as amended. In exact arithmetic and for finite inputs the energy is
  \<open>t * (B + k * d)\<close>, where \<open>t\<close> is runningTimeHours, \<open>d\<close> is diskSizeGb,
  \<open>k = 0.001 * PUE * 0.001 * CI\<close> and \<open>B\<close> does not depend on \<open>t\<close> or \<open>d\<close>. So
  the energy is proportional to runningTimeHours, and for a fixed runningTimeHours it
  is a constant plus diskSizeGb times \<open>t * k\<close>, which is \<open>24 * k\<close> for the program's
  window of 24 hours; \<open>k\<close> itself is the coefficient of the product of runningTimeHours
  and diskSizeGb.
\<close>

theorem energy_linear:
  assumes "nCpu u = Finite n" and "cpuUsage u = Finite c" and "memoryAvail u = Finite m"
    and "usage.PUE u = Finite pue" and "usage.gCO2ekWh u = Finite ci"
  shows "energy exact (params\<lparr>runningTimeHours := Finite t\<rparr>) (u\<lparr>usage.diskSizeGb := Finite d\<rparr>)
           = Finite (t * ((n * 12.4 * c + m * 0.3725) * pue * 0.001 * ci
                          + (0.001 * pue * 0.001 * ci) * d))
         \<and> energy exact (params\<lparr>runningTimeHours := Finite t\<rparr>) (u\<lparr>usage.diskSizeGb := Finite d\<rparr>)
           = Finite (t * ((n * 12.4 * c + m * 0.3725) * pue * 0.001 * ci)
                     + (t * (0.001 * pue * 0.001 * ci)) * d)
         \<and> energy exact (GRANULARITY_PARAMS exact) (u\<lparr>usage.diskSizeGb := Finite d\<rparr>)
           = Finite (24 * ((n * 12.4 * c + m * 0.3725) * pue * 0.001 * ci)
                     + (24 * (0.001 * pue * 0.001 * ci)) * d)"
proof -
  have "energy exact (params\<lparr>runningTimeHours := Finite t\<rparr>) (u\<lparr>usage.diskSizeGb := Finite d\<rparr>)
      = Finite (t * (n * 12.4 * c + m * 0.3725 + d * 0.001) * pue * 0.001 * ci)"
    by (rule energy_exact) (simp_all add: assms)
  moreover have "energy exact (GRANULARITY_PARAMS exact) (u\<lparr>usage.diskSizeGb := Finite d\<rparr>)
      = Finite (24 * (n * 12.4 * c + m * 0.3725 + d * 0.001) * pue * 0.001 * ci)"
    by (rule energy_exact) (simp_all add: assms GRANULARITY_PARAMS_def exact_def)
  ultimately show ?thesis
    by (simp add: algebra_simps)
qed

theorem energy_linear_witness:
  "nCpu sampleUsage = Finite 2 \<and> cpuUsage sampleUsage = Finite 1
   \<and> memoryAvail sampleUsage = Finite 8 \<and> usage.PUE sampleUsage = Finite 1.2
   \<and> usage.gCO2ekWh sampleUsage = Finite 475
   \<and> energy exact (GRANULARITY_PARAMS exact\<lparr>runningTimeHours := Finite 48\<rparr>)
       (sampleUsage\<lparr>usage.diskSizeGb := Finite 20\<rparr>)
     = Finite 760.608
   \<and> energy exact (GRANULARITY_PARAMS exact) (sampleUsage\<lparr>usage.diskSizeGb := Finite 20\<rparr>)
     = Finite 380.304"
proof -
  have f: "nCpu sampleUsage = Finite 2" "cpuUsage sampleUsage = Finite 1"
    "memoryAvail sampleUsage = Finite 8" "usage.PUE sampleUsage = Finite 1.2"
    "usage.gCO2ekWh sampleUsage = Finite 475"
    by (simp_all add: sampleUsage_def)
  from energy_linear [OF f, where params = "GRANULARITY_PARAMS exact" and t = 48 and d = 20]
  show ?thesis
    by (simp add: f)
qed

text \<open>
  Claim C8, as stated, gives \<open>k\<close> as the coefficient of diskSizeGb. For the sample
  process (PUE 1.2, intensity 475, so \<open>k = 0.00057\<close>) ten more gigabytes of disk would
  then add 0.0057 to the energy at disk size 0, giving 380.0361; the program gives
  380.1672.
\<close>

theorem disk_coefficient_counterexample:
  "energy exact (GRANULARITY_PARAMS exact) (sampleUsage\<lparr>usage.diskSizeGb := Finite 10\<rparr>)
     = Finite 380.1672
   \<and> add exact (energy exact (GRANULARITY_PARAMS exact) (sampleUsage\<lparr>usage.diskSizeGb := Finite 0\<rparr>))
       (mul exact
          (mul exact (mul exact (mul exact (num exact 0.001) (usage.PUE sampleUsage)) (num exact 0.001))
             (usage.gCO2ekWh sampleUsage))
          (Finite 10))
     = Finite 380.0361
   \<and> energy exact (GRANULARITY_PARAMS exact) (sampleUsage\<lparr>usage.diskSizeGb := Finite 10\<rparr>)
     \<noteq> add exact (energy exact (GRANULARITY_PARAMS exact) (sampleUsage\<lparr>usage.diskSizeGb := Finite 0\<rparr>))
         (mul exact
            (mul exact (mul exact (mul exact (num exact 0.001) (usage.PUE sampleUsage)) (num exact 0.001))
               (usage.gCO2ekWh sampleUsage))
            (Finite 10))"
  by (simp add: energy_def GRANULARITY_PARAMS_def exact_def sampleUsage_def)


subsection \<open>Measured memory\<close>

lemma METRICS_CPU_not_memory: "metric \<in> set METRICS_CPU \<Longrightarrow> metric \<noteq> METRICS_MEMORY_available"
  by (auto simp: METRICS_CPU_def METRICS_MEMORY_available_def)

lemma find_series_same:
  assumes "list_all2 (\<lambda>m m'. measurement.name m = measurement.name m' \<and>
              (measurement.name m \<noteq> avoid \<longrightarrow> dataPoints m = dataPoints m')) xs ys"
    and "metric \<noteq> avoid"
  shows "map_option dataPoints (find (\<lambda>m. measurement.name m = metric) xs)
           = map_option dataPoints (find (\<lambda>m. measurement.name m = metric) ys)"
  using assms by (induction xs ys rule: list_all2_induct) auto

lemma find_series_defined:
  assumes "list_all2 (\<lambda>m m'. measurement.name m = measurement.name m' \<and>
              (measurement.name m \<noteq> avoid \<longrightarrow> dataPoints m = dataPoints m')) xs ys"
  shows "(find (\<lambda>m. measurement.name m = metric) xs = None)
           = (find (\<lambda>m. measurement.name m = metric) ys = None)"
  using assms by (induction xs ys rule: list_all2_induct) auto

lemma getMeasurement_option:
  "getMeasurement ms metric =
     (case map_option dataPoints (find (\<lambda>m. measurement.name m = metric) (measurements ms)) of
        None \<Rightarrow> Inl TypeError | Some d \<Rightarrow> Inr d)"
  by (simp add: getMeasurement_def split: option.splits)

lemma getMeasurement_same:
  assumes "list_all2 (\<lambda>m m'. measurement.name m = measurement.name m' \<and>
              (measurement.name m \<noteq> avoid \<longrightarrow> dataPoints m = dataPoints m'))
             (measurements ms) (measurements ms')"
    and "metric \<noteq> avoid"
  shows "getMeasurement ms metric = getMeasurement ms' metric"
  unfolding getMeasurement_option find_series_same [OF assms] by (rule refl)

lemma cpuLoop_same:
  assumes "list_all2 (\<lambda>m m'. measurement.name m = measurement.name m' \<and>
              (measurement.name m \<noteq> avoid \<longrightarrow> dataPoints m = dataPoints m'))
             (measurements ms) (measurements ms')"
    and "avoid \<notin> set metrics"
  shows "cpuLoop A ms metrics totalUsage = cpuLoop A ms' metrics totalUsage"
  using assms(2)
proof (induction metrics arbitrary: totalUsage)
  case Nil
  show ?case by simp
next
  case (Cons metric metrics)
  then have "getMeasurement ms metric = getMeasurement ms' metric"
    by (intro getMeasurement_same [OF assms(1)]) auto
  with Cons show ?case by (simp split: sum.splits)
qed

lemma getMemoryUsage_defined:
  assumes "list_all2 (\<lambda>m m'. measurement.name m = measurement.name m' \<and>
              (measurement.name m \<noteq> avoid \<longrightarrow> dataPoints m = dataPoints m'))
             (measurements ms) (measurements ms')"
  shows "(\<exists>x. getMemoryUsage A ms = Inr x) = (\<exists>x. getMemoryUsage A ms' = Inr x)"
  using find_series_defined [OF assms, of METRICS_MEMORY_available]
  by (auto simp: getMemoryUsage_def getMeasurement_def split: option.splits)

text \<open>
  Claim C9. Take two measurement sets with the same series names in the same order
  and the same data points in every series but the memory-available ones. For any
  process they give the same outcome: when one yields a usage record the other does
  too, with the same energy, and when one fails the other fails. The energy reads the
  memory capacity of the hardware profile, never the measured average.
\<close>

theorem energy_ignores_memory_usage:
  assumes "list_all2 (\<lambda>m m'. measurement.name m = measurement.name m' \<and>
              (measurement.name m \<noteq> METRICS_MEMORY_available \<longrightarrow> dataPoints m = dataPoints m'))
             (measurements ms) (measurements ms')"
    and "fetchMeasurements (id_process p) = Some ms"
    and "fetchMeasurements' (id_process p) = Some ms'"
  shows "(\<forall>u. processUsageCallback A hardwareSpec fetchMeasurements p = Inr u \<longrightarrow>
            (\<exists>u'. processUsageCallback A hardwareSpec fetchMeasurements' p = Inr u'
                   \<and> energy A params u' = energy A params u))
         \<and> (\<forall>e. processUsageCallback A hardwareSpec fetchMeasurements p = Inl e \<longrightarrow>
              processUsageCallback A hardwareSpec fetchMeasurements' p = Inl e)"
proof -
  have "METRICS_MEMORY_available \<notin> set METRICS_CPU"
    using METRICS_CPU_not_memory by blast
  then have cpu: "getCpuUsage A ms = getCpuUsage A ms'"
    unfolding getCpuUsage_def by (rule cpuLoop_same [OF assms(1)])
  note mem = getMemoryUsage_defined [OF assms(1), of A]
  have err: "\<And>e. e = TypeError"
    by (case_tac e) simp
  show ?thesis
  proof (cases "getMemoryUsage A ms")
    case (Inl e)
    with mem obtain e' where "getMemoryUsage A ms' = Inl e'"
      by (cases "getMemoryUsage A ms'") auto
    with Inl assms(2,3) show ?thesis
      by (simp add: processUsageCallback_def err [of e] err [of e'])
  next
    case (Inr x)
    with mem obtain x' where "getMemoryUsage A ms' = Inr x'"
      by auto
    with Inr assms(2,3) cpu show ?thesis
      by (auto simp: processUsageCallback_def energy_def split: sum.splits option.splits)
  qed
qed


theorem energy_ignores_memory_usage_witness:
  "list_all2 (\<lambda>m m'. measurement.name m = measurement.name m' \<and>
        (measurement.name m \<noteq> METRICS_MEMORY_available \<longrightarrow> dataPoints m = dataPoints m'))
     (measurements sampleMeasurements)
     (measurements \<lparr>measurements = sampleSeries METRICS_MEMORY_available [7000000]
                                     # tl (measurements sampleMeasurements)\<rparr>)
   \<and> processUsageCallback exact sampleHardwareSpec (\<lambda>i. Some sampleMeasurements) sampleProcess
       = Inr sampleUsage
   \<and> processUsageCallback exact sampleHardwareSpec
       (\<lambda>i. Some \<lparr>measurements = sampleSeries METRICS_MEMORY_available [7000000]
                                     # tl (measurements sampleMeasurements)\<rparr>) sampleProcess
       = Inr (sampleUsage\<lparr>memoryUsageGb := Finite 7\<rparr>)
   \<and> energy exact (GRANULARITY_PARAMS exact) (sampleUsage\<lparr>memoryUsageGb := Finite 7\<rparr>)
       = energy exact (GRANULARITY_PARAMS exact) sampleUsage"
proof -
  let ?ms' = "\<lparr>measurements = sampleSeries METRICS_MEMORY_available [7000000]
                                     # tl (measurements sampleMeasurements)\<rparr>"
  have h: "list_all2 (\<lambda>m m'. measurement.name m = measurement.name m' \<and>
        (measurement.name m \<noteq> METRICS_MEMORY_available \<longrightarrow> dataPoints m = dataPoints m'))
     (measurements sampleMeasurements) (measurements ?ms')"
    by code_simp
  have u: "processUsageCallback exact sampleHardwareSpec (\<lambda>i. Some sampleMeasurements) sampleProcess
      = Inr sampleUsage"
    by code_simp
  have u': "processUsageCallback exact sampleHardwareSpec (\<lambda>i. Some ?ms') sampleProcess
      = Inr (sampleUsage\<lparr>memoryUsageGb := Finite 7\<rparr>)"
    by code_simp
  from energy_ignores_memory_usage [OF h refl refl, of exact sampleHardwareSpec sampleProcess
      "GRANULARITY_PARAMS exact"] u u'
  have "energy exact (GRANULARITY_PARAMS exact) (sampleUsage\<lparr>memoryUsageGb := Finite 7\<rparr>)
       = energy exact (GRANULARITY_PARAMS exact) sampleUsage"
    by simp
  with h u u' show ?thesis by (intro conjI)
qed

subsection \<open>Empty series\<close>

lemma addNumber_NaN_right: "addNumber x NaN = NaN"
  by (cases x) simp_all

lemma mulNumber_NaN_right: "mulNumber x NaN = NaN"
  by (cases x) simp_all

lemma getDatapointsAvg_empty: "getDatapointsAvg exact [] = NaN"
  by (simp add: getDatapointsAvg_def exact_def)

lemma cpuLoop_NaN:
  "set metrics \<subseteq> measurement.name ` set (measurements ms) \<Longrightarrow>
     cpuLoop exact ms metrics NaN = Inr NaN"
proof (induction metrics)
  case Nil
  show ?case by simp
next
  case (Cons m metrics)
  then obtain d where "getMeasurement ms m = Inr d"
    using getMeasurement_present [of m ms] by auto
  with Cons show ?case by (simp add: exact_def)
qed

lemma cpuLoop_empty_series:
  "metric \<in> set metrics \<Longrightarrow> set metrics \<subseteq> measurement.name ` set (measurements ms) \<Longrightarrow>
     getMeasurement ms metric = Inr [] \<Longrightarrow> cpuLoop exact ms metrics totalUsage = Inr NaN"
proof (induction metrics arbitrary: totalUsage)
  case Nil
  then show ?case by simp
next
  case (Cons m metrics)
  from Cons.prems(2) have rest: "set metrics \<subseteq> measurement.name ` set (measurements ms)"
    by simp
  show ?case
  proof (cases "m = metric")
    case True
    with Cons.prems(3) have "cpuLoop exact ms (m # metrics) totalUsage
        = cpuLoop exact ms metrics (addNumber totalUsage (getDatapointsAvg exact []))"
      by (simp add: exact_def)
    then show ?thesis
      by (simp add: getDatapointsAvg_empty addNumber_NaN_right cpuLoop_NaN [OF rest])
  next
    case False
    with Cons.prems(1) have "metric \<in> set metrics" by simp
    moreover obtain d where "getMeasurement ms m = Inr d"
      using getMeasurement_present [of m ms] Cons.prems(2) by auto
    ultimately show ?thesis
      using Cons.IH [OF _ rest Cons.prems(3)] by simp
  qed
qed

text \<open>
  Claim C10. The average of the empty list of data points is not an error: it is 0
  divided by 0, which is NaN. A memory series that is present but empty makes the
  memory usage NaN; a CPU series that is present but empty makes the CPU usage NaN
  when the eight series are present; and an energy computed from a NaN usage is NaN.
\<close>

theorem average_of_empty_is_NaN:
  "getDatapointsAvg A [] = divide A (num A 0) (num A 0)
   \<and> getDatapointsAvg exact [] = NaN
   \<and> (getMeasurement ms METRICS_MEMORY_available = Inr [] \<longrightarrow> getMemoryUsage exact ms = Inr NaN)
   \<and> (metric \<in> set METRICS_CPU \<and> set METRICS_CPU \<subseteq> measurement.name ` set (measurements ms)
        \<and> getMeasurement ms metric = Inr [] \<longrightarrow> getCpuUsage exact ms = Inr NaN)
   \<and> (cpuUsage u = NaN \<longrightarrow> energy exact params u = NaN)"
proof (intro conjI impI)
  show "getDatapointsAvg A [] = divide A (num A 0) (num A 0)"
    by (simp add: getDatapointsAvg_def)
next
  show "getDatapointsAvg exact [] = NaN"
    by (rule getDatapointsAvg_empty)
next
  assume "getMeasurement ms METRICS_MEMORY_available = Inr []"
  then show "getMemoryUsage exact ms = Inr NaN"
    by (simp add: getMemoryUsage_def getDatapointsAvg_empty)
next
  assume "metric \<in> set METRICS_CPU \<and> set METRICS_CPU \<subseteq> measurement.name ` set (measurements ms)
      \<and> getMeasurement ms metric = Inr []"
  then show "getCpuUsage exact ms = Inr NaN"
    unfolding getCpuUsage_def by (blast intro: cpuLoop_empty_series)
next
  assume "cpuUsage u = NaN"
  then show "energy exact params u = NaN"
    by (simp add: energy_def exact_def mulNumber_NaN_right)
qed

theorem average_of_empty_is_NaN_witness:
  "getDatapointsAvg exact [] = NaN
   \<and> getMeasurement \<lparr>measurements = sampleSeries ''SYSTEM_NORMALIZED_CPU_IRQ'' []
                                      # measurements sampleMeasurements\<rparr>
       ''SYSTEM_NORMALIZED_CPU_IRQ'' = Inr []
   \<and> getCpuUsage exact \<lparr>measurements = sampleSeries ''SYSTEM_NORMALIZED_CPU_IRQ'' []
                                      # measurements sampleMeasurements\<rparr> = Inr NaN
   \<and> energy exact (GRANULARITY_PARAMS exact) (sampleUsage\<lparr>cpuUsage := NaN\<rparr>) = NaN"
proof -
  let ?ms = "\<lparr>measurements = sampleSeries ''SYSTEM_NORMALIZED_CPU_IRQ'' []
                                      # measurements sampleMeasurements\<rparr>"
  have irq: "''SYSTEM_NORMALIZED_CPU_IRQ'' \<in> set METRICS_CPU"
    by (simp add: METRICS_CPU_def)
  have present: "set METRICS_CPU \<subseteq> measurement.name ` set (measurements ?ms)"
    by (simp add: METRICS_CPU_def sampleMeasurements_def sampleSeries_def)
  have empty: "getMeasurement ?ms ''SYSTEM_NORMALIZED_CPU_IRQ'' = Inr []"
    by code_simp
  have u: "cpuUsage (sampleUsage\<lparr>cpuUsage := NaN\<rparr>) = NaN"
    by simp
  note t = average_of_empty_is_NaN [of exact ?ms "''SYSTEM_NORMALIZED_CPU_IRQ''"
      "sampleUsage\<lparr>cpuUsage := NaN\<rparr>" "GRANULARITY_PARAMS exact"]
  from t have "getDatapointsAvg exact [] = NaN" by blast
  moreover from t irq present empty have "getCpuUsage exact ?ms = Inr NaN" by blast
  moreover from t u have "energy exact (GRANULARITY_PARAMS exact) (sampleUsage\<lparr>cpuUsage := NaN\<rparr>) = NaN"
    by blast
  ultimately show ?thesis using empty by (intro conjI)
qed

end
